theory Spec2Isabelle
  imports Main "HOL-Library.Word"
begin

section \<open>Pixels, images and arrays\<close>

text \<open>
  The script \<^verbatim>\<open>frontend/remove_bg.py\<close> loads an image, normalises it to mode RGBA,
  copies it into a \<^verbatim>\<open>uint8\<close> array of shape (height, width, 4), clears the alpha
  value of every pixel whose three colour values are below a threshold, and saves the
  array as an image again.

  A channel value is an unsigned 8-bit integer. A pixel of an RGBA image, and an entry
  \<^verbatim>\<open>data[y, x, :]\<close> of the array, holds four of them; index 0 of the last axis is
  \<open>red\<close>, 1 is \<open>green\<close>, 2 is \<open>blue\<close> and 3 is \<open>alpha\<close>. Images and arrays are
  lists of rows, a row is a list of pixels: \<^verbatim>\<open>data[y, x]\<close> is \<open>data ! y ! x\<close>.
\<close>

type_synonym u8 = "8 word"

record pixel =
  red :: u8
  green :: u8
  blue :: u8
  alpha :: u8

type_synonym rgb = "u8 \<times> u8 \<times> u8"

type_synonym rgba_image = "pixel list list"

type_synonym ndarray = "pixel list list"

text \<open>
  What \<^verbatim>\<open>Image.open\<close> hands over. An image has a mode: \<open>RGB\<close> and \<open>RGBA\<close>
  are the colour images without and with an alpha channel, \<open>L\<close> is a grey image
  with one channel. A file can also mark one colour (or one grey value) of an image
  without an alpha channel as transparent, as a PNG file does with a \<^verbatim>\<open>tRNS\<close>
  chunk; the library keeps it beside the pixels as the image's transparency key
  (\<open>RGB_keyed\<close>, \<open>L_keyed\<close>). An image of any other mode (palette, bilevel,
  CMYK and so on) is given as \<open>Other_mode\<close> by the RGBA image that the library's
  conversion makes of it.
\<close>

datatype pil_image =
    RGB "rgb list list"
  | RGBA rgba_image
  | RGB_keyed "rgb list list" rgb
  | L "u8 list list"
  | L_keyed "u8 list list" u8
  | Other_mode rgba_image

text \<open>
  Modelled from the spec: \<^verbatim>\<open>Image.convert("RGBA")\<close> belongs to the imaging library
  and is not part of the repository. The specification says that the image is
  normalised to four channels and that an opaque three-channel image gains a
  fully-opaque alpha channel during load. For the images the specification does not
  speak of, the cases follow the library's documentation: a grey value becomes the
  three equal colour values, and a pixel that equals the transparency key of its image
  gets alpha 0 where every other pixel gets 255.
\<close>

fun convert_RGBA :: "pil_image \<Rightarrow> rgba_image" where
  "convert_RGBA (RGB rows) =
     map (map (\<lambda>(r, g, b). \<lparr>red = r, green = g, blue = b, alpha = 255\<rparr>)) rows"
| "convert_RGBA (RGBA rows) = rows"
| "convert_RGBA (RGB_keyed rows key) =
     map (map (\<lambda>(r, g, b).
       \<lparr>red = r, green = g, blue = b, alpha = (if (r, g, b) = key then 0 else 255)\<rparr>)) rows"
| "convert_RGBA (L rows) =
     map (map (\<lambda>v. \<lparr>red = v, green = v, blue = v, alpha = 255\<rparr>)) rows"
| "convert_RGBA (L_keyed rows key) =
     map (map (\<lambda>v. \<lparr>red = v, green = v, blue = v, alpha = (if v = key then 0 else 255)\<rparr>)) rows"
| "convert_RGBA (Other_mode rows) = rows"

text \<open>
  \<^verbatim>\<open>np.array(img)\<close> of an RGBA image is the array of its pixels, and
  \<^verbatim>\<open>Image.fromarray(data)\<close> of a \<^verbatim>\<open>uint8\<close> array whose last axis has length 4 is
  the RGBA image of the same pixels; both keep the grid as it is.
\<close>

definition np_array :: "rgba_image \<Rightarrow> ndarray" where
  "np_array img = img"

definition Image_fromarray :: "ndarray \<Rightarrow> rgba_image" where
  "Image_fromarray data = data"

section \<open>The vectorised operations\<close>

text \<open>\<^verbatim>\<open>data[:, :, c]\<close>: the plane of one channel.\<close>

definition take_channel :: "(pixel \<Rightarrow> u8) \<Rightarrow> ndarray \<Rightarrow> u8 list list" where
  "take_channel c data = map (map c) data"

text \<open>
  \<^verbatim>\<open>plane < t\<close>: the elementwise comparison of unsigned channel values with a
  Python integer.
\<close>

definition less_than :: "u8 list list \<Rightarrow> int \<Rightarrow> bool list list" where
  "less_than plane t = map (map (\<lambda>v. uint v < t)) plane"

text \<open>\<^verbatim>\<open>m1 & m2\<close>: the elementwise conjunction of two boolean arrays.\<close>

definition mask_and :: "bool list list \<Rightarrow> bool list list \<Rightarrow> bool list list" where
  "mask_and m1 m2 = map2 (map2 (\<and>)) m1 m2"

text \<open>\<^verbatim>\<open>data[mask, 3] = v\<close>: assignment to the alpha channel where the mask holds.\<close>

definition assign_alpha :: "bool list list \<Rightarrow> u8 \<Rightarrow> ndarray \<Rightarrow> ndarray" where
  "assign_alpha bmask v data =
     map2 (map2 (\<lambda>m p. if m then p\<lparr>alpha := v\<rparr> else p)) bmask data"

section \<open>The transformation\<close>

definition threshold :: int where
  "threshold = 30"

definition black_mask :: "ndarray \<Rightarrow> bool list list" where
  "black_mask data =
     mask_and
       (mask_and (less_than (take_channel red data) threshold)
                 (less_than (take_channel green data) threshold))
       (less_than (take_channel blue data) threshold)"

text \<open>
  Lines 6 to 18 of the script: from the loaded RGBA image \<^verbatim>\<open>img\<close> to the image
  \<^verbatim>\<open>new_img\<close> that is saved.
\<close>

definition new_img :: "rgba_image \<Rightarrow> rgba_image" where
  "new_img img =
     (let data = np_array img;
          bmask = black_mask data;
          data' = assign_alpha bmask 0 data
      in Image_fromarray data')"

section \<open>Files, the output stream and exceptions\<close>

datatype error = DecodeFailure | WriteFailure

datatype 'a outcome = Returned 'a | Raised error

text \<open>
  The world of the script: the file system, of a type \<open>'fs\<close> that only the imaging
  library looks into, and the characters written to the standard output stream so far.
\<close>

record 'fs world =
  files :: 'fs
  stdout :: string

text \<open>
  A statement of the script runs in a world and either returns a value or raises,
  leaving a world behind in both cases. The script has no \<^verbatim>\<open>try\<close>: when a
  statement raises, the statements after it do not run and the exception is the
  outcome of the whole function.
\<close>

type_synonym ('a, 'fs) action = "'fs world \<Rightarrow> 'a outcome \<times> 'fs world"

definition and_then :: "('a, 'fs) action \<Rightarrow> ('a \<Rightarrow> ('b, 'fs) action) \<Rightarrow> ('b, 'fs) action" where
  "and_then stmt rest w =
     (case stmt w of
        (Raised e, w') \<Rightarrow> (Raised e, w')
      | (Returned v, w') \<Rightarrow> rest v w')"

text \<open>
  The two calls into the imaging library that touch the file system are parameters of
  the model. \<open>Image_open path fs\<close> reads and decodes the file at \<open>path\<close> (the
  script's \<^verbatim>\<open>Image.open\<close> together with the loading of the pixel data that
  \<^verbatim>\<open>convert\<close> triggers): it returns the image or raises, and leaves the file
  system as it is. \<open>save img path fs\<close> encodes \<open>img\<close> and writes it at \<open>path\<close>:
  it returns or raises, and gives the file system it leaves behind in either case.
\<close>

definition open_image ::
  "(string \<Rightarrow> 'fs \<Rightarrow> pil_image outcome) \<Rightarrow> string \<Rightarrow> (pil_image, 'fs) action" where
  "open_image Image_open path w = (Image_open path (files w), w)"

definition save_image ::
  "(rgba_image \<Rightarrow> string \<Rightarrow> 'fs \<Rightarrow> unit outcome \<times> 'fs) \<Rightarrow>
   rgba_image \<Rightarrow> string \<Rightarrow> (unit, 'fs) action" where
  "save_image save im path w =
     (case save im path (files w) of (r, fs') \<Rightarrow> (r, w\<lparr>files := fs'\<rparr>))"

text \<open>\<^verbatim>\<open>print(s)\<close> writes the text and a newline to the output stream.\<close>

definition print :: "string \<Rightarrow> (unit, 'fs) action" where
  "print s w = (Returned (), w\<lparr>stdout := stdout w @ s @ [CHR 0x0A]\<rparr>)"

text \<open>
  The function: load and normalise (line 5), transform (lines 6 to 18), save
  (line 19), report (line 20).
\<close>

definition remove_black_background ::
  "(string \<Rightarrow> 'fs \<Rightarrow> pil_image outcome) \<Rightarrow>
   (rgba_image \<Rightarrow> string \<Rightarrow> 'fs \<Rightarrow> unit outcome \<times> 'fs) \<Rightarrow>
   string \<Rightarrow> string \<Rightarrow> (unit, 'fs) action" where
  "remove_black_background Image_open save input_path output_path =
     and_then (open_image Image_open input_path) (\<lambda>src.
     and_then (save_image save (new_img (convert_RGBA src)) output_path) (\<lambda>_.
     print (''Processed image saved to '' @ output_path)))"

section \<open>Observations used by the properties\<close>

text \<open>What happens to one pixel: its alpha is cleared when it is in the mask.\<close>

definition is_black :: "pixel \<Rightarrow> bool" where
  "is_black p \<longleftrightarrow>
     uint (red p) < threshold \<and> uint (green p) < threshold \<and> uint (blue p) < threshold"

definition clear_black :: "pixel \<Rightarrow> pixel" where
  "clear_black p = (if is_black p then p\<lparr>alpha := 0\<rparr> else p)"

text \<open>The three colour values of a pixel.\<close>

definition colours :: "pixel \<Rightarrow> rgb" where
  "colours p = (red p, green p, blue p)"

text \<open>
  The text that a run has added to the output stream, and the number of lines in a
  text: the number of newline characters that end them.
\<close>

definition emitted :: "'fs world \<Rightarrow> 'fs world \<Rightarrow> string" where
  "emitted w w' = drop (length (stdout w)) (stdout w')"

definition count_lines :: "string \<Rightarrow> nat" where
  "count_lines s = count_list s (CHR 0x0A)"

section \<open>A stand-in for the imaging library and the disk\<close>

text \<open>
  To run the function on concrete inputs, a small file system stands in for the disk
  and the two library calls. A file holds an image in a container format; the file
  system is a list of paths with the file at each, the newest entry first.

  The stand-in for \<^verbatim>\<open>save\<close> follows the library's documentation of a call that
  gives a path and no format, as line 19 of the script does: the format is looked up
  from the extension of the path, the part of its last component from the last dot
  on, in lower case. Three of the registered extensions are kept here. A PNG file
  stores the four channels. The JPEG writer refuses an RGBA image and raises. The BMP
  writer accepts it, and the file gives back the three colour channels only. A path
  with no extension or with another extension raises. Where the stand-in raises it
  leaves the file system as it was.
\<close>

datatype format = PNG | JPEG | BMP

type_synonym demo_fs = "(string \<times> format \<times> pil_image) list"

definition basename :: "string \<Rightarrow> string" where
  "basename path = rev (takeWhile (\<lambda>c. c \<noteq> CHR ''/'') (rev path))"

definition extension :: "string \<Rightarrow> string" where
  "extension path =
     (let name = dropWhile (\<lambda>c. c = CHR ''.'') (basename path)
      in if CHR ''.'' \<in> set name
         then CHR ''.'' # rev (takeWhile (\<lambda>c. c \<noteq> CHR ''.'') (rev name))
         else [])"

definition lower :: "string \<Rightarrow> string" where
  "lower s =
     map (\<lambda>c. case map_of (zip ''ABCDEFGHIJKLMNOPQRSTUVWXYZ'' ''abcdefghijklmnopqrstuvwxyz'') c of
                 None \<Rightarrow> c | Some l \<Rightarrow> l) s"

definition format_of_path :: "string \<Rightarrow> format option" where
  "format_of_path path =
     (let ext = lower (extension path)
      in if ext = ''.png'' then Some PNG
         else if ext = ''.jpg'' \<or> ext = ''.jpeg'' then Some JPEG
         else if ext = ''.bmp'' then Some BMP
         else None)"

definition demo_open :: "string \<Rightarrow> demo_fs \<Rightarrow> pil_image outcome" where
  "demo_open path fs =
     (case map_of fs path of
        None \<Rightarrow> Raised DecodeFailure
      | Some (fmt, im) \<Rightarrow> Returned im)"

definition demo_save :: "rgba_image \<Rightarrow> string \<Rightarrow> demo_fs \<Rightarrow> unit outcome \<times> demo_fs" where
  "demo_save im path fs =
     (case format_of_path path of
        None \<Rightarrow> (Raised WriteFailure, fs)
      | Some PNG \<Rightarrow> (Returned (), (path, PNG, RGBA im) # fs)
      | Some JPEG \<Rightarrow> (Raised WriteFailure, fs)
      | Some BMP \<Rightarrow> (Returned (), (path, BMP, RGB (map (map colours) im)) # fs))"

definition demo_world :: "demo_fs world" where
  "demo_world =
     \<lparr>files = [(''logo.png'', PNG, RGB [[(0, 0, 0), (40, 40, 40)]])], stdout = []\<rparr>"

definition keyed_world :: "demo_fs world" where
  "keyed_world =
     \<lparr>files = [(''keyed.png'', PNG, RGB_keyed [[(200, 200, 200), (40, 40, 40)]] (200, 200, 200))],
      stdout = []\<rparr>"

definition two_line_path :: string where
  "two_line_path = ''logo'' @ [CHR 0x0A] @ ''.png''"

section \<open>The transformation, pixel by pixel\<close>

lemma format_of_path_examples:
  "format_of_path ''out.png'' = Some PNG"
  "format_of_path ''out.PNG'' = Some PNG"
  "format_of_path two_line_path = Some PNG"
  "format_of_path ''out.jpg'' = Some JPEG"
  "format_of_path ''out.bmp'' = Some BMP"
  "format_of_path ''pictures.png/out'' = None"
  "format_of_path ''.png'' = None"
  "format_of_path [] = None"
  by (simp_all add: format_of_path_def extension_def basename_def lower_def two_line_path_def)

lemma map2_same_list:
  "map2 f (map g xs) (map h xs) = map (\<lambda>x. f (g x) (h x)) xs"
  by (induction xs) simp_all

lemma less_than_take_channel:
  "less_than (take_channel c data) t = map (map (\<lambda>p. uint (c p) < t)) data"
  by (simp add: less_than_def take_channel_def comp_def)

lemma mask_and_pointwise:
  "mask_and (map (map f) data) (map (map g) data) = map (map (\<lambda>p. f p \<and> g p)) data"
  by (simp add: mask_and_def map2_same_list)

lemma black_mask_pointwise: "black_mask data = map (map is_black) data"
proof -
  have "is_black = (\<lambda>p. (uint (red p) < threshold \<and> uint (green p) < threshold)
                          \<and> uint (blue p) < threshold)"
    by (rule ext) (simp add: is_black_def)
  then show ?thesis
    by (simp add: black_mask_def less_than_take_channel mask_and_pointwise)
qed

lemma map2_map_left:
  "map2 f (map g xs) xs = map (\<lambda>x. f (g x) x) xs"
  by (induction xs) simp_all

lemma assign_alpha_pointwise:
  "assign_alpha (map (map f) data) v data
   = map (map (\<lambda>p. if f p then p\<lparr>alpha := v\<rparr> else p)) data"
  by (simp add: assign_alpha_def map2_map_left)

lemma new_img_pointwise: "new_img img = map (map clear_black) img"
proof -
  have "clear_black = (\<lambda>p. if is_black p then p\<lparr>alpha := 0\<rparr> else p)"
    by (rule ext) (simp add: clear_black_def)
  then show ?thesis
    by (simp add: new_img_def np_array_def Image_fromarray_def black_mask_pointwise
        assign_alpha_pointwise)
qed

text \<open>
  The specification's scenario of a 2 by 2 image, run on the vectorised definitions
  themselves: the two dark pixels lose their alpha, the other two keep it.
\<close>

lemma scenario_2_by_2:
  "new_img [[\<lparr>red = 0, green = 0, blue = 0, alpha = 255\<rparr>,
             \<lparr>red = 10, green = 5, blue = 2, alpha = 255\<rparr>],
            [\<lparr>red = 40, green = 40, blue = 40, alpha = 255\<rparr>,
             \<lparr>red = 255, green = 255, blue = 255, alpha = 255\<rparr>]]
   = [[\<lparr>red = 0, green = 0, blue = 0, alpha = 0\<rparr>,
       \<lparr>red = 10, green = 5, blue = 2, alpha = 0\<rparr>],
      [\<lparr>red = 40, green = 40, blue = 40, alpha = 255\<rparr>,
       \<lparr>red = 255, green = 255, blue = 255, alpha = 255\<rparr>]]"
  by (simp add: new_img_def np_array_def Image_fromarray_def black_mask_def mask_and_def
      less_than_def take_channel_def assign_alpha_def threshold_def)

lemma new_img_at:
  "y < length img \<Longrightarrow> x < length (img ! y) \<Longrightarrow> new_img img ! y ! x = clear_black (img ! y ! x)"
  by (simp add: new_img_pointwise)

lemma alpha_clear_black:
  "alpha (clear_black p) = (if is_black p then 0 else alpha p)"
  by (simp add: clear_black_def)

lemma colours_clear_black: "colours (clear_black p) = colours p"
  by (simp add: clear_black_def colours_def)

lemma is_black_clear_black: "is_black (clear_black p) = is_black p"
  by (simp add: clear_black_def is_black_def)

lemma clear_black_idem: "clear_black (clear_black p) = clear_black p"
  by (simp add: clear_black_def is_black_def)

lemma convert_RGBA_RGB_at:
  assumes "y < length rows" and "x < length (rows ! y)" and "rows ! y ! x = (r, g, b)"
  shows "convert_RGBA (RGB rows) ! y ! x = \<lparr>red = r, green = g, blue = b, alpha = 255\<rparr>"
  using assms by simp

section \<open>Runs of the function\<close>

text \<open>
  A run ends in one of three ways: the loading raises, the saving raises, or both
  return and the message is printed.
\<close>

lemma open_raised:
  assumes "Image_open input_path (files w) = Raised e"
  shows "remove_black_background Image_open save input_path output_path w = (Raised e, w)"
  using assms by (simp add: remove_black_background_def and_then_def open_image_def)

lemma save_raised:
  assumes "Image_open input_path (files w) = Returned src"
    and "save (new_img (convert_RGBA src)) output_path (files w) = (Raised e, fs')"
  shows "remove_black_background Image_open save input_path output_path w
         = (Raised e, w\<lparr>files := fs'\<rparr>)"
  using assms
  by (simp add: remove_black_background_def and_then_def open_image_def save_image_def)

lemma save_returned:
  assumes "Image_open input_path (files w) = Returned src"
    and "save (new_img (convert_RGBA src)) output_path (files w) = (Returned u, fs')"
  shows "remove_black_background Image_open save input_path output_path w
         = (Returned (),
            \<lparr>files = fs', stdout = stdout w @ ''Processed image saved to '' @ output_path @ [CHR 0x0A]\<rparr>)"
  using assms
  by (simp add: remove_black_background_def and_then_def open_image_def save_image_def
      print_def)

lemma run_cases:
  obtains (open_fails) e where "Image_open input_path (files w) = Raised e"
  | (save_fails) src e fs' where "Image_open input_path (files w) = Returned src"
      and "save (new_img (convert_RGBA src)) output_path (files w) = (Raised e, fs')"
  | (succeeds) src fs' where "Image_open input_path (files w) = Returned src"
      and "save (new_img (convert_RGBA src)) output_path (files w) = (Returned (), fs')"
proof (cases "Image_open input_path (files w)")
  case (Raised e)
  then show ?thesis by (rule open_fails)
next
  case (Returned src)
  show ?thesis
  proof (cases "save (new_img (convert_RGBA src)) output_path (files w)")
    case (Pair r fs')
    show ?thesis
    proof (cases r)
      case (Raised e)
      with Pair Returned show ?thesis by (auto intro: save_fails)
    next
      case (Returned u)
      with Pair \<open>Image_open input_path (files w) = Returned src\<close> show ?thesis
        by (auto intro: succeeds)
    qed
  qed
qed

lemma returned_run:
  assumes "remove_black_background Image_open save input_path output_path w = (Returned u, w')"
  shows "\<exists>src fs'. Image_open input_path (files w) = Returned src
           \<and> save (new_img (convert_RGBA src)) output_path (files w) = (Returned (), fs')
           \<and> w' = \<lparr>files = fs',
                    stdout = stdout w @ ''Processed image saved to '' @ output_path @ [CHR 0x0A]\<rparr>"
proof (cases rule: run_cases [where Image_open = Image_open and input_path = input_path
    and w = w and save = save and output_path = output_path])
  case (open_fails e)
  with assms show ?thesis by (simp add: open_raised)
next
  case (save_fails src e fs')
  with assms show ?thesis by (simp add: save_raised)
next
  case (succeeds src fs')
  with assms show ?thesis by (auto simp: save_returned)
qed

text \<open>Two runs on the stand-in, evaluated.\<close>

lemma demo_run_logo:
  "remove_black_background demo_open demo_save ''logo.png'' ''out.png'' demo_world
   = (Returned (),
      \<lparr>files = (''out.png'', PNG,
                 RGBA [[\<lparr>red = 0, green = 0, blue = 0, alpha = 0\<rparr>,
                        \<lparr>red = 40, green = 40, blue = 40, alpha = 255\<rparr>]])
                # files demo_world,
       stdout = ''Processed image saved to out.png'' @ [CHR 0x0A]\<rparr>)"
  by (simp add: remove_black_background_def and_then_def open_image_def save_image_def
      print_def demo_open_def demo_save_def demo_world_def new_img_pointwise
      format_of_path_examples clear_black_def is_black_def threshold_def)

lemma demo_run_keyed:
  "remove_black_background demo_open demo_save ''keyed.png'' ''out.png'' keyed_world
   = (Returned (),
      \<lparr>files = (''out.png'', PNG,
                 RGBA [[\<lparr>red = 200, green = 200, blue = 200, alpha = 0\<rparr>,
                        \<lparr>red = 40, green = 40, blue = 40, alpha = 255\<rparr>]])
                # files keyed_world,
       stdout = ''Processed image saved to out.png'' @ [CHR 0x0A]\<rparr>)"
  by (simp add: remove_black_background_def and_then_def open_image_def save_image_def
      print_def demo_open_def demo_save_def keyed_world_def new_img_pointwise
      format_of_path_examples clear_black_def is_black_def threshold_def)

section \<open>The alpha channel\<close>

lemma black_alpha_zero:
  assumes "y < length img" and "x < length (img ! y)"
    and "uint (red (img ! y ! x)) < 30"
    and "uint (green (img ! y ! x)) < 30"
    and "uint (blue (img ! y ! x)) < 30"
  shows "alpha (new_img img ! y ! x) = 0"
  using assms by (simp add: new_img_at alpha_clear_black is_black_def threshold_def)

lemma other_alpha_kept:
  assumes "y < length img" and "x < length (img ! y)"
    and "\<not> (uint (red (img ! y ! x)) < 30 \<and> uint (green (img ! y ! x)) < 30
            \<and> uint (blue (img ! y ! x)) < 30)"
  shows "alpha (new_img img ! y ! x) = alpha (img ! y ! x)"
proof -
  from assms(3) have "\<not> is_black (img ! y ! x)"
    by (simp add: is_black_def threshold_def)
  with assms(1,2) show ?thesis
    by (simp add: new_img_at alpha_clear_black)
qed

lemma alpha_convert_RGBA:
  assumes "y < length (convert_RGBA src)" and "x < length (convert_RGBA src ! y)"
  shows "alpha (convert_RGBA src ! y ! x) =
           (case src of
              RGB rows \<Rightarrow> 255
            | RGBA rows \<Rightarrow> alpha (rows ! y ! x)
            | RGB_keyed rows key \<Rightarrow> (if rows ! y ! x = key then 0 else 255)
            | L rows \<Rightarrow> 255
            | L_keyed rows key \<Rightarrow> (if rows ! y ! x = key then 0 else 255)
            | Other_mode rows \<Rightarrow> alpha (rows ! y ! x))"
  using assms by (cases src) (auto split: prod.splits)

text \<open>
  C1. On every run that returns, the loading returned an image, and the image that
  was handed to \<open>save\<close>, whose result is the file system the run leaves, has
  alpha 0 at every position where the red, green and blue of the loaded image are
  each strictly below 30.
\<close>

theorem black_pixel_alpha_zero:
  assumes "remove_black_background Image_open save input_path output_path w = (Returned u, w')"
  shows "\<exists>src fs'. Image_open input_path (files w) = Returned src
           \<and> save (new_img (convert_RGBA src)) output_path (files w) = (Returned (), fs')
           \<and> files w' = fs'
           \<and> (\<forall>y x. y < length (convert_RGBA src) \<longrightarrow> x < length (convert_RGBA src ! y)
                 \<longrightarrow> uint (red (convert_RGBA src ! y ! x)) < 30
                 \<longrightarrow> uint (green (convert_RGBA src ! y ! x)) < 30
                 \<longrightarrow> uint (blue (convert_RGBA src ! y ! x)) < 30
                 \<longrightarrow> alpha (new_img (convert_RGBA src) ! y ! x) = 0)"
proof -
  from returned_run [OF assms] obtain src fs' where
    "Image_open input_path (files w) = Returned src"
    "save (new_img (convert_RGBA src)) output_path (files w) = (Returned (), fs')"
    "files w' = fs'"
    by auto
  then show ?thesis
    by (auto simp: black_alpha_zero)
qed

theorem black_pixel_alpha_zero_witness:
  "remove_black_background demo_open demo_save ''logo.png'' ''out.png'' demo_world
   = (Returned (),
      \<lparr>files = (''out.png'', PNG,
                 RGBA [[\<lparr>red = 0, green = 0, blue = 0, alpha = 0\<rparr>,
                        \<lparr>red = 40, green = 40, blue = 40, alpha = 255\<rparr>]])
                # files demo_world,
       stdout = ''Processed image saved to out.png'' @ [CHR 0x0A]\<rparr>)
   \<and> demo_open ''logo.png'' (files demo_world) = Returned (RGB [[(0, 0, 0), (40, 40, 40)]])
   \<and> uint (red (convert_RGBA (RGB [[(0, 0, 0), (40, 40, 40)]]) ! 0 ! 0)) < 30
   \<and> uint (green (convert_RGBA (RGB [[(0, 0, 0), (40, 40, 40)]]) ! 0 ! 0)) < 30
   \<and> uint (blue (convert_RGBA (RGB [[(0, 0, 0), (40, 40, 40)]]) ! 0 ! 0)) < 30
   \<and> alpha (new_img (convert_RGBA (RGB [[(0, 0, 0), (40, 40, 40)]])) ! 0 ! 0) = 0"
proof -
  from black_pixel_alpha_zero [OF demo_run_logo] obtain src where
    src: "demo_open ''logo.png'' (files demo_world) = Returned src"
    and zero: "\<forall>y x. y < length (convert_RGBA src) \<longrightarrow> x < length (convert_RGBA src ! y)
                 \<longrightarrow> uint (red (convert_RGBA src ! y ! x)) < 30
                 \<longrightarrow> uint (green (convert_RGBA src ! y ! x)) < 30
                 \<longrightarrow> uint (blue (convert_RGBA src ! y ! x)) < 30
                 \<longrightarrow> alpha (new_img (convert_RGBA src) ! y ! x) = 0"
    by blast
  from src have eq: "src = RGB [[(0, 0, 0), (40, 40, 40)]]"
    by (simp add: demo_open_def demo_world_def)
  from zero [rule_format, of 0 0] have
    "alpha (new_img (convert_RGBA (RGB [[(0, 0, 0), (40, 40, 40)]])) ! 0 ! 0) = 0"
    unfolding eq by simp
  with src show ?thesis
    unfolding eq by (simp add: demo_run_logo)
qed

text \<open>
  C2, as amended. On every run that returns, the image handed to \<open>save\<close> has, at
  every position where red, green and blue are not all below 30, the alpha of the
  loaded image after its normalisation to RGBA: the alpha of the input image when it
  has an alpha channel; 255 when it is a colour or grey image with no alpha channel
  and no transparency key; and, when it has a transparency key, 0 where the pixel
  equals the key and 255 elsewhere.
\<close>

theorem other_pixel_alpha_kept:
  assumes "remove_black_background Image_open save input_path output_path w = (Returned u, w')"
  shows "\<exists>src fs'. Image_open input_path (files w) = Returned src
           \<and> save (new_img (convert_RGBA src)) output_path (files w) = (Returned (), fs')
           \<and> files w' = fs'
           \<and> (\<forall>y x. y < length (convert_RGBA src) \<longrightarrow> x < length (convert_RGBA src ! y)
                 \<longrightarrow> \<not> (uint (red (convert_RGBA src ! y ! x)) < 30
                        \<and> uint (green (convert_RGBA src ! y ! x)) < 30
                        \<and> uint (blue (convert_RGBA src ! y ! x)) < 30)
                 \<longrightarrow> alpha (new_img (convert_RGBA src) ! y ! x) =
                       (case src of
                          RGB rows \<Rightarrow> 255
                        | RGBA rows \<Rightarrow> alpha (rows ! y ! x)
                        | RGB_keyed rows key \<Rightarrow> (if rows ! y ! x = key then 0 else 255)
                        | L rows \<Rightarrow> 255
                        | L_keyed rows key \<Rightarrow> (if rows ! y ! x = key then 0 else 255)
                        | Other_mode rows \<Rightarrow> alpha (rows ! y ! x)))"
proof -
  from returned_run [OF assms] obtain src fs' where
    "Image_open input_path (files w) = Returned src"
    "save (new_img (convert_RGBA src)) output_path (files w) = (Returned (), fs')"
    "files w' = fs'"
    by auto
  then show ?thesis
    by (intro exI [of _ src] exI [of _ fs'])
      (simp add: other_alpha_kept alpha_convert_RGBA)
qed

theorem other_pixel_alpha_kept_witness:
  "remove_black_background demo_open demo_save ''logo.png'' ''out.png'' demo_world
   = (Returned (),
      \<lparr>files = (''out.png'', PNG,
                 RGBA [[\<lparr>red = 0, green = 0, blue = 0, alpha = 0\<rparr>,
                        \<lparr>red = 40, green = 40, blue = 40, alpha = 255\<rparr>]])
                # files demo_world,
       stdout = ''Processed image saved to out.png'' @ [CHR 0x0A]\<rparr>)
   \<and> demo_open ''logo.png'' (files demo_world) = Returned (RGB [[(0, 0, 0), (40, 40, 40)]])
   \<and> \<not> (uint (red (convert_RGBA (RGB [[(0, 0, 0), (40, 40, 40)]]) ! 0 ! 1)) < 30
          \<and> uint (green (convert_RGBA (RGB [[(0, 0, 0), (40, 40, 40)]]) ! 0 ! 1)) < 30
          \<and> uint (blue (convert_RGBA (RGB [[(0, 0, 0), (40, 40, 40)]]) ! 0 ! 1)) < 30)
   \<and> alpha (new_img (convert_RGBA (RGB [[(0, 0, 0), (40, 40, 40)]])) ! 0 ! 1) = 255"
proof -
  from other_pixel_alpha_kept [OF demo_run_logo] obtain src where
    src: "demo_open ''logo.png'' (files demo_world) = Returned src"
    and kept: "\<forall>y x. y < length (convert_RGBA src) \<longrightarrow> x < length (convert_RGBA src ! y)
                 \<longrightarrow> \<not> (uint (red (convert_RGBA src ! y ! x)) < 30
                        \<and> uint (green (convert_RGBA src ! y ! x)) < 30
                        \<and> uint (blue (convert_RGBA src ! y ! x)) < 30)
                 \<longrightarrow> alpha (new_img (convert_RGBA src) ! y ! x) =
                       (case src of
                          RGB rows \<Rightarrow> 255
                        | RGBA rows \<Rightarrow> alpha (rows ! y ! x)
                        | RGB_keyed rows key \<Rightarrow> (if rows ! y ! x = key then 0 else 255)
                        | L rows \<Rightarrow> 255
                        | L_keyed rows key \<Rightarrow> (if rows ! y ! x = key then 0 else 255)
                        | Other_mode rows \<Rightarrow> alpha (rows ! y ! x))"
    by blast
  from src have eq: "src = RGB [[(0, 0, 0), (40, 40, 40)]]"
    by (simp add: demo_open_def demo_world_def)
  from kept [rule_format, of 0 1] have
    "alpha (new_img (convert_RGBA (RGB [[(0, 0, 0), (40, 40, 40)]])) ! 0 ! 1) = 255"
    unfolding eq by simp
  with src show ?thesis
    unfolding eq by (simp add: demo_run_logo)
qed

text \<open>
  C2, as stated, fails for an input image that has no alpha channel but a
  transparency key: the run returns, the first pixel is not in the mask, and the
  image written has alpha 0 there, not 255.
\<close>

theorem keyed_image_counterexample:
  "remove_black_background demo_open demo_save ''keyed.png'' ''out.png'' keyed_world
   = (Returned (),
      \<lparr>files = (''out.png'', PNG,
                 RGBA [[\<lparr>red = 200, green = 200, blue = 200, alpha = 0\<rparr>,
                        \<lparr>red = 40, green = 40, blue = 40, alpha = 255\<rparr>]])
                # files keyed_world,
       stdout = ''Processed image saved to out.png'' @ [CHR 0x0A]\<rparr>)
   \<and> demo_open ''keyed.png'' (files keyed_world)
       = Returned (RGB_keyed [[(200, 200, 200), (40, 40, 40)]] (200, 200, 200))
   \<and> \<not> (uint (200 :: u8) < 30 \<and> uint (200 :: u8) < 30 \<and> uint (200 :: u8) < 30)
   \<and> alpha (new_img (convert_RGBA (RGB_keyed [[(200, 200, 200), (40, 40, 40)]] (200, 200, 200)))
         ! 0 ! 0) = 0
   \<and> alpha (new_img (convert_RGBA (RGB_keyed [[(200, 200, 200), (40, 40, 40)]] (200, 200, 200)))
         ! 0 ! 0) \<noteq> 255"
  using demo_run_keyed
  by (simp add: demo_open_def keyed_world_def new_img_pointwise
      clear_black_def is_black_def threshold_def)

text \<open>
  C5. A pixel whose red, green and blue are exactly 30 is not in the mask, and its
  alpha is left as it is.
\<close>

theorem threshold_is_strict:
  assumes "y < length img" and "x < length (img ! y)"
    and "red (img ! y ! x) = 30" and "green (img ! y ! x) = 30" and "blue (img ! y ! x) = 30"
  shows "\<not> black_mask (np_array img) ! y ! x
         \<and> alpha (new_img img ! y ! x) = alpha (img ! y ! x)
         \<and> new_img img ! y ! x = img ! y ! x"
proof -
  have "\<not> is_black (img ! y ! x)"
    using assms(3-5) by (simp add: is_black_def threshold_def)
  with assms(1,2) show ?thesis
    by (simp add: new_img_at clear_black_def black_mask_pointwise np_array_def)
qed

theorem threshold_is_strict_witness:
  "(0::nat) < length [[\<lparr>red = 30, green = 30, blue = 30, alpha = 200\<rparr>]]
   \<and> (0::nat) < length ([[\<lparr>red = 30, green = 30, blue = 30, alpha = 200\<rparr>]] ! 0)
   \<and> red ([[\<lparr>red = 30, green = 30, blue = 30, alpha = 200\<rparr>]] ! 0 ! 0) = 30
   \<and> green ([[\<lparr>red = 30, green = 30, blue = 30, alpha = 200\<rparr>]] ! 0 ! 0) = 30
   \<and> blue ([[\<lparr>red = 30, green = 30, blue = 30, alpha = 200\<rparr>]] ! 0 ! 0) = 30
   \<and> \<not> black_mask (np_array [[\<lparr>red = 30, green = 30, blue = 30, alpha = 200\<rparr>]]) ! 0 ! 0
   \<and> alpha (new_img [[\<lparr>red = 30, green = 30, blue = 30, alpha = 200\<rparr>]] ! 0 ! 0) = 200"
  using threshold_is_strict [of 0 "[[\<lparr>red = 30, green = 30, blue = 30, alpha = 200\<rparr>]]" 0]
  by simp

text \<open>
  C9. The alpha of a pixel of the saved image is never above the alpha of that pixel
  in the loaded image: it is 0 or unchanged.
\<close>

theorem alpha_never_increases:
  assumes "y < length img" and "x < length (img ! y)"
  shows "alpha (new_img img ! y ! x) \<le> alpha (img ! y ! x)
         \<and> uint (alpha (new_img img ! y ! x)) \<le> uint (alpha (img ! y ! x))
         \<and> (alpha (new_img img ! y ! x) = 0 \<or> alpha (new_img img ! y ! x) = alpha (img ! y ! x))"
  using assms by (simp add: new_img_at alpha_clear_black word_le_def)

theorem alpha_never_increases_witness:
  "(0::nat) < length [[\<lparr>red = 1, green = 2, blue = 3, alpha = 200\<rparr>]]
   \<and> (0::nat) < length ([[\<lparr>red = 1, green = 2, blue = 3, alpha = 200\<rparr>]] ! 0)
   \<and> alpha (new_img [[\<lparr>red = 1, green = 2, blue = 3, alpha = 200\<rparr>]] ! 0 ! 0)
       \<le> alpha ([[\<lparr>red = 1, green = 2, blue = 3, alpha = 200\<rparr>]] ! 0 ! 0)"
  using alpha_never_increases [of 0 "[[\<lparr>red = 1, green = 2, blue = 3, alpha = 200\<rparr>]]" 0]
  by simp

section \<open>The frame: colours and size\<close>

text \<open>
  C3. The saved image has as many rows as the loaded image and rows of the same
  lengths, and the red, green and blue values of every pixel are those of the loaded
  image; for an input image without an alpha channel they are the values of the
  input image itself.
\<close>

theorem colours_and_size_kept:
  "length (new_img img) = length img
   \<and> map length (new_img img) = map length img
   \<and> map (map red) (new_img img) = map (map red) img
   \<and> map (map green) (new_img img) = map (map green) img
   \<and> map (map blue) (new_img img) = map (map blue) img
   \<and> map length (new_img (convert_RGBA (RGB rows))) = map length rows
   \<and> map (map colours) (new_img (convert_RGBA (RGB rows))) = rows"
proof -
  have r: "\<And>p. red (clear_black p) = red p" and g: "\<And>p. green (clear_black p) = green p"
    and b: "\<And>p. blue (clear_black p) = blue p"
    by (simp_all add: clear_black_def)
  have c: "(\<lambda>x. colours (clear_black (case x of (r, g, b) \<Rightarrow> \<lparr>red = r, green = g, blue = b, alpha = 255\<rparr>))) = id"
    by (rule ext) (simp add: clear_black_def colours_def split: prod.splits)
  show ?thesis
    by (simp add: new_img_pointwise r g b comp_def c)
qed

section \<open>Algebraic properties\<close>

text \<open>
  C6. Transforming the transformed image again gives the same image, also when it is
  read back as an RGBA image and normalised again.
\<close>

theorem new_img_idempotent:
  "new_img (new_img img) = new_img img
   \<and> new_img (convert_RGBA (RGBA (new_img (convert_RGBA src)))) = new_img (convert_RGBA src)"
proof -
  have "clear_black \<circ> clear_black = clear_black"
    by (rule ext) (simp add: clear_black_idem)
  then show ?thesis
    by (simp add: new_img_pointwise)
qed

text \<open>
  C10. The pixel of the saved image at a position depends on the pixel of the loaded
  image at that position only: two images that agree at a position give results that
  agree there, whatever their other pixels and their sizes are.
\<close>

theorem new_img_pointwise_agreement:
  assumes "y < length a" and "x < length (a ! y)"
    and "y < length b" and "x < length (b ! y)"
    and "a ! y ! x = b ! y ! x"
  shows "new_img a ! y ! x = new_img b ! y ! x"
  using assms by (simp add: new_img_at)

theorem new_img_pointwise_agreement_witness:
  "(0::nat) < length [[\<lparr>red = 1, green = 2, blue = 3, alpha = 200\<rparr>]]
   \<and> (0::nat) < length ([[\<lparr>red = 1, green = 2, blue = 3, alpha = 200\<rparr>]] ! 0)
   \<and> (0::nat) < length [[\<lparr>red = 1, green = 2, blue = 3, alpha = 200\<rparr>,
                           \<lparr>red = 90, green = 90, blue = 90, alpha = 9\<rparr>],
                          [\<lparr>red = 0, green = 0, blue = 0, alpha = 1\<rparr>]]
   \<and> (0::nat) < length ([[\<lparr>red = 1, green = 2, blue = 3, alpha = 200\<rparr>,
                           \<lparr>red = 90, green = 90, blue = 90, alpha = 9\<rparr>],
                          [\<lparr>red = 0, green = 0, blue = 0, alpha = 1\<rparr>]] ! 0)
   \<and> [[\<lparr>red = 1, green = 2, blue = 3, alpha = 200\<rparr>]] ! 0 ! 0
       = [[\<lparr>red = 1, green = 2, blue = 3, alpha = 200\<rparr>,
           \<lparr>red = 90, green = 90, blue = 90, alpha = 9\<rparr>],
          [\<lparr>red = 0, green = 0, blue = 0, alpha = 1\<rparr>]] ! 0 ! 0
   \<and> new_img [[\<lparr>red = 1, green = 2, blue = 3, alpha = 200\<rparr>]] ! 0 ! 0
       = new_img [[\<lparr>red = 1, green = 2, blue = 3, alpha = 200\<rparr>,
                   \<lparr>red = 90, green = 90, blue = 90, alpha = 9\<rparr>],
                  [\<lparr>red = 0, green = 0, blue = 0, alpha = 1\<rparr>]] ! 0 ! 0"
  using new_img_pointwise_agreement
    [of 0 "[[\<lparr>red = 1, green = 2, blue = 3, alpha = 200\<rparr>]]" 0
        "[[\<lparr>red = 1, green = 2, blue = 3, alpha = 200\<rparr>,
           \<lparr>red = 90, green = 90, blue = 90, alpha = 9\<rparr>],
          [\<lparr>red = 0, green = 0, blue = 0, alpha = 1\<rparr>]]"]
  by simp

section \<open>Exceptions and the output stream\<close>

lemma count_lines_append: "count_lines (xs @ ys) = count_lines xs + count_lines ys"
  by (simp add: count_lines_def)

lemma count_lines_none: "CHR 0x0A \<notin> set s \<Longrightarrow> count_lines s = 0"
  by (simp add: count_lines_def)

text \<open>
  C7. An exception raised by the decoding or by the writing is the outcome of the
  function: nothing catches it. When the decoding raises, the function ends there
  with the world as it was, whatever \<open>save\<close> would do: no file is written and
  nothing is printed. When the writing raises, the function ends with the file system
  that the failed write left behind.
\<close>

theorem errors_propagate:
  "(Image_open input_path (files w) = Raised e
    \<longrightarrow> remove_black_background Image_open save input_path output_path w = (Raised e, w))
   \<and> (Image_open input_path (files w) = Returned src
      \<and> save (new_img (convert_RGBA src)) output_path (files w) = (Raised e, fs')
    \<longrightarrow> remove_black_background Image_open save input_path output_path w
        = (Raised e, w\<lparr>files := fs'\<rparr>))"
  by (simp add: open_raised save_raised)

theorem errors_propagate_witness:
  "demo_open ''missing.png'' (files demo_world) = Raised DecodeFailure
   \<and> remove_black_background demo_open demo_save ''missing.png'' ''out.png'' demo_world
       = (Raised DecodeFailure, demo_world)
   \<and> demo_open ''logo.png'' (files demo_world) = Returned (RGB [[(0, 0, 0), (40, 40, 40)]])
   \<and> demo_save (new_img (convert_RGBA (RGB [[(0, 0, 0), (40, 40, 40)]]))) [] (files demo_world)
       = (Raised WriteFailure, files demo_world)
   \<and> remove_black_background demo_open demo_save ''logo.png'' [] demo_world
       = (Raised WriteFailure, demo_world)"
  using errors_propagate
    [of demo_open "''missing.png''" demo_world DecodeFailure demo_save "''out.png''"]
    errors_propagate
    [of demo_open "''logo.png''" demo_world WriteFailure demo_save "[]"
        "RGB [[(0, 0, 0), (40, 40, 40)]]" "files demo_world"]
  by (simp add: demo_open_def demo_save_def demo_world_def format_of_path_examples)

text \<open>
  C8, as amended. On a run that returns, the save has returned before anything is
  printed, the file system is the one the save left, and the text added to the output
  stream is exactly \<^verbatim>\<open>Processed image saved to\<close>, a space, the output path as it
  was given, and one newline; this is exactly one line when the output path contains
  no newline character. On a run that raises, nothing is printed.
\<close>

theorem message_after_save:
  "(remove_black_background Image_open save input_path output_path w = (Returned u, w')
    \<longrightarrow> (\<exists>src fs'. Image_open input_path (files w) = Returned src
          \<and> save (new_img (convert_RGBA src)) output_path (files w) = (Returned (), fs')
          \<and> files w' = fs')
        \<and> stdout w' = stdout w @ ''Processed image saved to '' @ output_path @ [CHR 0x0A]
        \<and> emitted w w' = ''Processed image saved to '' @ output_path @ [CHR 0x0A]
        \<and> (CHR 0x0A \<notin> set output_path \<longrightarrow> count_lines (emitted w w') = 1))
   \<and> (fst (remove_black_background Image_open save input_path output_path w) = Raised e
    \<longrightarrow> stdout (snd (remove_black_background Image_open save input_path output_path w))
        = stdout w)"
proof (cases rule: run_cases [where Image_open = Image_open and input_path = input_path
    and w = w and save = save and output_path = output_path])
  case (open_fails e')
  then show ?thesis by (simp add: open_raised)
next
  case (save_fails src e' fs')
  then show ?thesis by (simp add: save_raised)
next
  case (succeeds src fs')
  have "count_lines ''Processed image saved to '' = 0"
    by (simp add: count_lines_def)
  with succeeds show ?thesis
    by (auto simp: save_returned emitted_def count_lines_append count_lines_none)
      (simp add: count_lines_def)
qed

theorem message_after_save_witness:
  "remove_black_background demo_open demo_save ''logo.png'' ''out.png'' demo_world
     = (Returned (),
        \<lparr>files = [(''out.png'', PNG, RGBA [[\<lparr>red = 0, green = 0, blue = 0, alpha = 0\<rparr>,
                                         \<lparr>red = 40, green = 40, blue = 40, alpha = 255\<rparr>]]),
                   (''logo.png'', PNG, RGB [[(0, 0, 0), (40, 40, 40)]])],
         stdout = ''Processed image saved to out.png'' @ [CHR 0x0A]\<rparr>)
   \<and> CHR 0x0A \<notin> set ''out.png''
   \<and> count_lines (emitted demo_world
        \<lparr>files = [(''out.png'', PNG, RGBA [[\<lparr>red = 0, green = 0, blue = 0, alpha = 0\<rparr>,
                                         \<lparr>red = 40, green = 40, blue = 40, alpha = 255\<rparr>]]),
                   (''logo.png'', PNG, RGB [[(0, 0, 0), (40, 40, 40)]])],
         stdout = ''Processed image saved to out.png'' @ [CHR 0x0A]\<rparr>) = 1
   \<and> fst (remove_black_background demo_open demo_save ''logo.png'' [] demo_world)
       = Raised WriteFailure
   \<and> stdout (snd (remove_black_background demo_open demo_save ''logo.png'' [] demo_world))
       = stdout demo_world"
proof -
  have run: "remove_black_background demo_open demo_save ''logo.png'' ''out.png'' demo_world
     = (Returned (),
        \<lparr>files = [(''out.png'', PNG, RGBA [[\<lparr>red = 0, green = 0, blue = 0, alpha = 0\<rparr>,
                                         \<lparr>red = 40, green = 40, blue = 40, alpha = 255\<rparr>]]),
                   (''logo.png'', PNG, RGB [[(0, 0, 0), (40, 40, 40)]])],
         stdout = ''Processed image saved to out.png'' @ [CHR 0x0A]\<rparr>)"
    by (simp add: remove_black_background_def and_then_def open_image_def save_image_def
        print_def demo_open_def demo_save_def demo_world_def new_img_pointwise
        format_of_path_examples
        clear_black_def is_black_def threshold_def)
  have fails: "fst (remove_black_background demo_open demo_save ''logo.png'' [] demo_world)
       = Raised WriteFailure"
    by (simp add: remove_black_background_def and_then_def open_image_def save_image_def
        demo_open_def demo_save_def demo_world_def format_of_path_examples)
  show ?thesis
    using run fails
      message_after_save [where Image_open = demo_open and save = demo_save
        and input_path = "''logo.png''" and output_path = "''out.png''" and w = demo_world
        and u = "()" and e = WriteFailure
        and w' = "\<lparr>files = [(''out.png'', PNG, RGBA [[\<lparr>red = 0, green = 0, blue = 0, alpha = 0\<rparr>,
                                         \<lparr>red = 40, green = 40, blue = 40, alpha = 255\<rparr>]]),
                   (''logo.png'', PNG, RGB [[(0, 0, 0), (40, 40, 40)]])],
         stdout = ''Processed image saved to out.png'' @ [CHR 0x0A]\<rparr>"]
      message_after_save [where Image_open = demo_open and save = demo_save
        and input_path = "''logo.png''" and output_path = "[]" and w = demo_world
        and u = "()" and e = WriteFailure and w' = demo_world]
    by (simp add: count_lines_def)
qed

text \<open>
  C8, as stated, fails for an output path that contains a newline character: the run
  returns and the text it prints has two lines, neither of which holds the whole path.
\<close>

theorem one_line_counterexample:
  "fst (remove_black_background demo_open demo_save ''logo.png'' two_line_path demo_world)
     = Returned ()
   \<and> emitted demo_world
       (snd (remove_black_background demo_open demo_save ''logo.png'' two_line_path demo_world))
     = ''Processed image saved to logo'' @ [CHR 0x0A] @ ''.png'' @ [CHR 0x0A]
   \<and> count_lines (emitted demo_world
       (snd (remove_black_background demo_open demo_save ''logo.png'' two_line_path demo_world)))
     = 2"
proof -
  have "remove_black_background demo_open demo_save ''logo.png'' two_line_path demo_world
        = (Returned (),
           \<lparr>files = (two_line_path, PNG,
                      RGBA (new_img (convert_RGBA (RGB [[(0, 0, 0), (40, 40, 40)]]))))
                     # files demo_world,
            stdout = ''Processed image saved to '' @ two_line_path @ [CHR 0x0A]\<rparr>)"
    by (simp add: remove_black_background_def and_then_def open_image_def save_image_def
        demo_open_def demo_save_def demo_world_def format_of_path_examples print_def)
  then show ?thesis
    by (simp add: emitted_def count_lines_def demo_world_def two_line_path_def)
qed

section \<open>The container format\<close>




end
